theory Spec2Isabelle
  imports Main "HOL-Library.AList" "HOL-Library.Multiset"
begin

section \<open>JavaScript values\<close>

text \<open>
  The project file is JSON, and the code reads it without validating anything but its
  outer shape, so configuration values are modelled as the values \<^verbatim>\<open>JSON.parse\<close>
  can produce. An object is the list of its own properties in creation order (for a
  parsed file: the order of the text), with distinct keys. Numbers are restricted to
  integers; how the runtime prints a number is a parameter. \<open>JBuiltin\<close> stands for a function or object of the runtime that a lookup can
  reach through \<^verbatim>\<open>Object.prototype\<close>; it never occurs in a parsed file.
  \<^verbatim>\<open>undefined\<close> is \<open>None\<close> of an option type.
\<close>

datatype jsval =
    JNull
  | JBool bool
  | JNum int
  | JStr string
  | JArr "jsval list"
  | JObj "(string \<times> jsval) list"
  | JBuiltin string

text \<open>Truthiness, as \<^verbatim>\<open>if (v)\<close> and \<^verbatim>\<open>a && b\<close> test it.\<close>

fun truthy :: "jsval \<Rightarrow> bool" where
  "truthy JNull = False"
| "truthy (JBool b) = b"
| "truthy (JNum n) = (n \<noteq> 0)"
| "truthy (JStr s) = (s \<noteq> [])"
| "truthy (JArr xs) = True"
| "truthy (JObj kvs) = True"
| "truthy (JBuiltin f) = True"

text \<open>The same test on a value that may be \<^verbatim>\<open>undefined\<close>, which is falsy.\<close>

definition is_truthy :: "jsval option \<Rightarrow> bool" where
  "is_truthy x = (case x of Some v \<Rightarrow> truthy v | None \<Rightarrow> False)"

text \<open>
  \<^verbatim>\<open>v.key\<close> for the fixed keys the code reads (\<^verbatim>\<open>type\<close>, \<^verbatim>\<open>root\<close>,
  \<^verbatim>\<open>projects\<close>, \<^verbatim>\<open>defaultProject\<close>): an own property of an object, and
  \<^verbatim>\<open>undefined\<close> on every other value the code reads them from (none of these keys is
  a property of a prototype of the runtime).
\<close>

fun own_property :: "jsval \<Rightarrow> string \<Rightarrow> jsval option" where
  "own_property (JObj kvs) k = map_of kvs k"
| "own_property v k = None"

text \<open>Decimal digits of a natural number, the form of an array index.\<close>

fun string_of_nat :: "nat \<Rightarrow> string" where
  "string_of_nat n =
     (if n < 10 then [''0123456789'' ! n]
      else string_of_nat (n div 10) @ [''0123456789'' ! (n mod 10)])"

fun join :: "string \<Rightarrow> string list \<Rightarrow> string" where
  "join sep [] = []"
| "join sep [x] = x"
| "join sep (x # y # ys) = x @ sep @ join sep (y # ys)"

text \<open>
  \<^verbatim>\<open>String(v)\<close>, which is also how a value used as a property key is converted. In an
  array, \<^verbatim>\<open>null\<close> prints as the empty string. The first argument is \<^verbatim>\<open>String\<close> on a
  number, which the runtime decides (digits for a small integer, exponent notation for a
  large one).
\<close>

fun js_String :: "(int \<Rightarrow> string) \<Rightarrow> jsval \<Rightarrow> string" where
  "js_String num JNull = ''null''"
| "js_String num (JBool b) = (if b then ''true'' else ''false'')"
| "js_String num (JNum n) = num n"
| "js_String num (JStr s) = s"
| "js_String num (JArr xs) =
     join '','' (map (\<lambda>x. if x = JNull then [] else js_String num x) xs)"
| "js_String num (JObj kvs) = ''[object Object]''"
| "js_String num (JBuiltin f) = f"

declare string_of_nat.simps [simp del]

text \<open>
  The own enumerable keys of an object come in the runtime's order: array indices (the
  canonical decimal strings of 0 .. 2^32 - 2) in ascending numeric order, then every
  other key in creation order. \<^verbatim>\<open>lodash.entries\<close> follows that order.
\<close>

definition digit_value :: "char \<Rightarrow> nat" where
  "digit_value c = length (takeWhile (\<lambda>d. d \<noteq> c) ''0123456789'')"

definition nat_of_digits :: "string \<Rightarrow> nat" where
  "nat_of_digits s = foldl (\<lambda>n c. 10 * n + digit_value c) 0 s"

definition is_array_index :: "string \<Rightarrow> bool" where
  "is_array_index k = (string_of_nat (nat_of_digits k) = k \<and> nat_of_digits k < 4294967295)"

definition lodash_entries :: "(string \<times> jsval) list \<Rightarrow> (string \<times> jsval) list" where
  "lodash_entries kvs =
     sort_key (\<lambda>kv. nat_of_digits (fst kv)) (filter (\<lambda>kv. is_array_index (fst kv)) kvs)
     @ filter (\<lambda>kv. \<not> is_array_index (fst kv)) kvs"

text \<open>
  \<^verbatim>\<open>obj[key]\<close> with a key computed at run time, on an object made by \<^verbatim>\<open>JSON.parse\<close>:
  an own property if there is one, otherwise what the object inherits from
  \<^verbatim>\<open>Object.prototype\<close>.
\<close>

definition object_prototype :: "(string \<times> jsval) list" where
  "object_prototype =
     [(''constructor'', JBuiltin ''Object''),
      (''__defineGetter__'', JBuiltin ''__defineGetter__''),
      (''__defineSetter__'', JBuiltin ''__defineSetter__''),
      (''hasOwnProperty'', JBuiltin ''hasOwnProperty''),
      (''__lookupGetter__'', JBuiltin ''__lookupGetter__''),
      (''__lookupSetter__'', JBuiltin ''__lookupSetter__''),
      (''isPrototypeOf'', JBuiltin ''isPrototypeOf''),
      (''propertyIsEnumerable'', JBuiltin ''propertyIsEnumerable''),
      (''toString'', JBuiltin ''toString''),
      (''valueOf'', JBuiltin ''valueOf''),
      (''__proto__'', JBuiltin ''Object.prototype''),
      (''toLocaleString'', JBuiltin ''toLocaleString'')]"

definition get_property :: "(string \<times> jsval) list \<Rightarrow> string \<Rightarrow> jsval option" where
  "get_property kvs k =
     (case map_of kvs k of Some v \<Rightarrow> Some v | None \<Rightarrow> map_of object_prototype k)"

text \<open>\<^verbatim>\<open>s.startsWith(p)\<close>.\<close>

fun startsWith :: "string \<Rightarrow> string \<Rightarrow> bool" where
  "startsWith s [] = True"
| "startsWith [] (p # ps) = False"
| "startsWith (c # s) (p # ps) = (c = p \<and> startsWith s ps)"

section \<open>Failures, effects and asynchronous functions\<close>

text \<open>
  The exception classes the code throws, catches or lets through. \<open>SystemError\<close> is a
  failed file operation, \<open>SyntaxError\<close> a failed \<^verbatim>\<open>JSON.parse\<close>.
\<close>

datatype exn =
    RunnerNotFoundException string
  | IntegrationNotFoundException string
  | FatalException string
  | TypeError string
  | SyntaxError string
  | SystemError string

text \<open>The project variants that \<^verbatim>\<open>createProjectFromType\<close> instantiates.\<close>

datatype variant = AngularProject | IonicAngularProject | Ionic1Project | CustomProject

text \<open>
  What a resolution reads from the file system, in the order it reads it: the project
  file, and the marker probe \<^verbatim>\<open>detected()\<close> of a variant.
\<close>

datatype event = ReadJsonFile string | Detected variant

text \<open>
  An \<^verbatim>\<open>async\<close> function is modelled by what a call of it does: the file system reads it
  makes, and the value it resolves with (\<open>Inr\<close>) or the exception it rejects with
  (\<open>Inl\<close>). \<open>await m f\<close> is \<^verbatim>\<open>const x = await m; f(x)\<close>: a rejection of \<open>m\<close> ends
  the caller.
\<close>

type_synonym 'a action = "event list \<times> (exn + 'a)"

definition resolve_with :: "'a \<Rightarrow> 'a action" where
  "resolve_with x = ([], Inr x)"

definition reject :: "exn \<Rightarrow> 'a action" where
  "reject e = ([], Inl e)"

definition await :: "'a action \<Rightarrow> ('a \<Rightarrow> 'b action) \<Rightarrow> 'b action" where
  "await m f =
     (case m of
        (t, Inl e) \<Rightarrow> (t, Inl e)
      | (t, Inr x) \<Rightarrow> (case f x of (t', r) \<Rightarrow> (t @ t', r)))"

definition io :: "event \<Rightarrow> 'a \<Rightarrow> 'a action" where
  "io ev x = ([ev], Inr x)"

section \<open>Collaborators that are not part of the resolution code\<close>

text \<open>
  What a \<^verbatim>\<open>ProjectDetails\<close> instance holds and the constants it imports:
  \<^verbatim>\<open>rootDirectory\<close>, the parsed command line \<^verbatim>\<open>args\<close> (the own properties of the
  argument object, or \<open>None\<close> when no arguments were given), \<^verbatim>\<open>e.ctx.execPath\<close>, the
  constants \<^verbatim>\<open>PROJECT_FILE\<close> and \<^verbatim>\<open>PROJECT_TYPES\<close> of \<^verbatim>\<open>constants.ts\<close>,
  Node's \<^verbatim>\<open>path.resolve\<close> on two strings, and the runtime's \<^verbatim>\<open>String\<close> on a
  number. The constants and the two functions of the runtime are parameters: every
  theorem holds for each value of them that satisfies its hypotheses.
\<close>

record env =
  rootDirectory :: string
  args :: "(string \<times> jsval) list option"
  execPath :: string
  PROJECT_FILE :: string
  PROJECT_TYPES :: "string list"
  path_resolve :: "string \<Rightarrow> string \<Rightarrow> string"
  number_String :: "int \<Rightarrow> string"

text \<open>
  The file system at the time of a call: what \<^verbatim>\<open>readJsonFile\<close> of
  \<^verbatim>\<open>@ionic/utils-fs\<close> does on a path (it rejects when the file is absent, unreadable
  or not JSON, and resolves with the parsed value otherwise), and whether the marker of a
  variant is there (the answer of its \<^verbatim>\<open>detected()\<close>, a read-only probe that the
  variant classes implement).
\<close>

record world =
  readJsonFile :: "string \<Rightarrow> exn + jsval"
  detected :: "variant \<Rightarrow> bool"

text \<open>
  Modelled from the spec: \<^verbatim>\<open>resolveValue\<close> of \<^verbatim>\<open>@ionic/cli-framework/utils/fn\<close>,
  which is not among the sources. It runs the given functions in order, each only if
  every earlier one yielded nothing, and resolves with the first result that is
  something; a function yields nothing when it resolves with \<^verbatim>\<open>undefined\<close>.
\<close>

fun resolveValue :: "(unit \<Rightarrow> jsval option action) list \<Rightarrow> jsval option action" where
  "resolveValue [] = resolve_with None"
| "resolveValue (fn # fns) =
     await (fn ())
       (\<lambda>r. case r of
              Some v \<Rightarrow> resolve_with (Some v)
            | None \<Rightarrow> resolveValue fns)"

text \<open>
  Modelled from the spec: the guards \<^verbatim>\<open>isProjectConfig\<close> and \<^verbatim>\<open>isMultiProjectConfig\<close>
  of \<^verbatim>\<open>guards.ts\<close>, which is not among the sources. A configuration is single-app when
  it is an object without a \<^verbatim>\<open>projects\<close> property, multi-app when it is an object whose
  \<^verbatim>\<open>projects\<close> is a mapping, and of unknown shape otherwise.
\<close>

definition isProjectConfig :: "jsval \<Rightarrow> bool" where
  "isProjectConfig c = (case c of JObj kvs \<Rightarrow> map_of kvs ''projects'' = None | _ \<Rightarrow> False)"

definition isMultiProjectConfig :: "jsval \<Rightarrow> bool" where
  "isMultiProjectConfig c =
     (case own_property c ''projects'' of Some (JObj ps) \<Rightarrow> True | _ \<Rightarrow> False)"

text \<open>
  \<^verbatim>\<open>config.projects\<close> of an \<^verbatim>\<open>IMultiProjectConfig\<close>: the properties of the mapping.
  Only configurations that passed \<open>isMultiProjectConfig\<close> are read this way.
\<close>

definition projects :: "jsval \<Rightarrow> (string \<times> jsval) list" where
  "projects c = (case own_property c ''projects'' of Some (JObj ps) \<Rightarrow> ps | _ \<Rightarrow> [])"

section \<open>Project variants\<close>

text \<open>
  A project instance: the class it was made from, the path of the project file, and the
  name of the sub-project (\<^verbatim>\<open>undefined\<close> for a single app).
\<close>

record IProject =
  variant :: variant
  filePath :: string
  project_name :: "string option"

text \<open>
  Modelled from the spec: the field \<^verbatim>\<open>type\<close> of the variant classes, which are not
  among the sources. Each variant has the type it is created for.
\<close>

fun variant_type :: "variant \<Rightarrow> string" where
  "variant_type AngularProject = ''angular''"
| "variant_type IonicAngularProject = ''ionic-angular''"
| "variant_type Ionic1Project = ''ionic1''"
| "variant_type CustomProject = ''custom''"

definition createProjectFromType :: "string \<Rightarrow> string option \<Rightarrow> string \<Rightarrow> IProject action" where
  "createProjectFromType file nm t =
     (if t = ''angular'' then
        resolve_with \<lparr>variant = AngularProject, filePath = file, project_name = nm\<rparr>
      else if t = ''ionic-angular'' then
        resolve_with \<lparr>variant = IonicAngularProject, filePath = file, project_name = nm\<rparr>
      else if t = ''ionic1'' then
        resolve_with \<lparr>variant = Ionic1Project, filePath = file, project_name = nm\<rparr>
      else if t = ''custom'' then
        resolve_with \<lparr>variant = CustomProject, filePath = file, project_name = nm\<rparr>
      else reject (FatalException (''Bad project type: '' @ t)))"

section \<open>ProjectDetails\<close>

datatype ProjectDetailsErrorCode =
    ERR_INVALID_PROJECT_FILE
  | ERR_INVALID_PROJECT_TYPE
  | ERR_MISSING_PROJECT_TYPE
  | ERR_MULTI_MISSING_CONFIG
  | ERR_MULTI_MISSING_NAME

datatype ProjectDetailsError =
  ProjectDetailsError (msg: string) (code: ProjectDetailsErrorCode) (error: "exn option")

datatype context_kind = App | MultiApp | Unknown

text \<open>
  The result of \<^verbatim>\<open>determineSingleApp\<close> and \<^verbatim>\<open>determineMultiApp\<close>; \<^verbatim>\<open>determine\<close>
  adds \<^verbatim>\<open>configPath\<close>. A property a result does not have is \<open>None\<close>.
\<close>

record ProjectDetailsResultBase =
  context' :: context_kind
  config :: "jsval option"
  name :: "jsval option"
  type :: "jsval option"
  errors :: "ProjectDetailsError list"

record ProjectDetailsResult = ProjectDetailsResultBase +
  configPath :: string

definition getNameFromArgs :: "env \<Rightarrow> jsval option action" where
  "getNameFromArgs env =
     (let project = (case args env of None \<Rightarrow> None | Some a \<Rightarrow> map_of a ''project'');
          nm = (if is_truthy project
                then Some (JStr (js_String (number_String env) (the project)))
                else None)
      in if is_truthy nm then resolve_with nm else resolve_with None)"

text \<open>The loop of \<^verbatim>\<open>getNameFromPathMatch\<close> over the entries that are left.\<close>

fun path_match :: "env \<Rightarrow> (string \<times> jsval) list \<Rightarrow> jsval option action" where
  "path_match env [] = resolve_with None"
| "path_match env ((key, v) # rest) =
     (if truthy v then
        (case own_property v ''root'' of
           None \<Rightarrow> path_match env rest
         | Some r \<Rightarrow>
             if truthy r then
               (case r of
                  JStr root \<Rightarrow>
                    (let projectDir = path_resolve env (rootDirectory env) root
                     in if startsWith (execPath env) projectDir
                        then resolve_with (Some (JStr key))
                        else path_match env rest)
                | _ \<Rightarrow> reject (TypeError ''Path must be a string''))
             else path_match env rest)
      else path_match env rest)"

definition getNameFromPathMatch :: "env \<Rightarrow> jsval \<Rightarrow> jsval option action" where
  "getNameFromPathMatch env c = path_match env (lodash_entries (projects c))"

definition getNameFromDefaultProject :: "jsval \<Rightarrow> jsval option action" where
  "getNameFromDefaultProject c =
     (let nm = own_property c ''defaultProject''
      in if is_truthy nm then resolve_with nm else resolve_with None)"

definition getTypeFromConfig :: "jsval \<Rightarrow> jsval option action" where
  "getTypeFromConfig c =
     (let t = own_property c ''type''
      in if is_truthy t then resolve_with t else resolve_with None)"

text \<open>
  The loop of \<^verbatim>\<open>getTypeFromDetection\<close> over the types that are left. Each round
  makes the project of the type and asks it whether its marker is there.
\<close>

fun detection :: "env \<Rightarrow> world \<Rightarrow> string list \<Rightarrow> jsval option action" where
  "detection env w [] = resolve_with None"
| "detection env w (projectType # rest) =
     await (createProjectFromType
              (path_resolve env (rootDirectory env) (PROJECT_FILE env)) None projectType)
       (\<lambda>p. await (io (Detected (variant p)) (detected w (variant p)))
          (\<lambda>d. if d then resolve_with (Some (JStr (variant_type (variant p))))
                else detection env w rest))"

definition getTypeFromDetection :: "env \<Rightarrow> world \<Rightarrow> jsval option action" where
  "getTypeFromDetection env w = detection env w (PROJECT_TYPES env)"

text \<open>\<^verbatim>\<open>PROJECT_TYPES.includes(type)\<close>: only a string is equal to an element.\<close>

definition array_includes :: "string list \<Rightarrow> jsval option \<Rightarrow> bool" where
  "array_includes ts x = (case x of Some (JStr s) \<Rightarrow> s \<in> set ts | _ \<Rightarrow> False)"

definition determineSingleApp :: "env \<Rightarrow> world \<Rightarrow> jsval \<Rightarrow> ProjectDetailsResultBase action" where
  "determineSingleApp env w c =
     await (resolveValue [\<lambda>_. getTypeFromConfig c, \<lambda>_. getTypeFromDetection env w])
       (\<lambda>t. resolve_with
          \<lparr>context' = App, config = Some c, name = None, type = t,
           errors =
             (if \<not> is_truthy t then
                [ProjectDetailsError ''Could not determine project type.''
                   ERR_MISSING_PROJECT_TYPE None]
              else if \<not> array_includes (PROJECT_TYPES env) t then
                [ProjectDetailsError ''Invalid project type.'' ERR_INVALID_PROJECT_TYPE None]
              else [])\<rparr>)"

definition determineMultiApp :: "env \<Rightarrow> world \<Rightarrow> jsval \<Rightarrow> ProjectDetailsResultBase action" where
  "determineMultiApp env w c =
     await (resolveValue
              [\<lambda>_. getNameFromArgs env,
               \<lambda>_. getNameFromPathMatch env c,
               \<lambda>_. getNameFromDefaultProject c])
       (\<lambda>nm.
          if is_truthy nm then
            (let app = get_property (projects c) (js_String (number_String env) (the nm))
             in if is_truthy app then
                  await (determineSingleApp env w (the app))
                    (\<lambda>r. resolve_with
                       \<lparr>context' = MultiApp, config = Some c, name = nm, type = type r,
                        errors = errors r\<rparr>)
                else
                  resolve_with
                    \<lparr>context' = MultiApp, config = Some c, name = nm, type = None,
                     errors = [ProjectDetailsError ''Could not find project in config.''
                                 ERR_MULTI_MISSING_CONFIG None]\<rparr>)
          else
            resolve_with
              \<lparr>context' = MultiApp, config = Some c, name = nm, type = None,
               errors = [ProjectDetailsError ''Could not determine project name.''
                           ERR_MULTI_MISSING_NAME None]\<rparr>)"

text \<open>
  \<^verbatim>\<open>determine\<close>. The read of the project file resolves with its outcome, which the
  \<^verbatim>\<open>try\<close>/\<^verbatim>\<open>catch\<close> takes apart. \<^verbatim>\<open>{ configPath, errors, ...result }\<close> has the
  properties of \<^verbatim>\<open>result\<close>, its \<^verbatim>\<open>errors\<close> among them, and \<^verbatim>\<open>configPath\<close>.
\<close>

definition determine :: "env \<Rightarrow> world \<Rightarrow> ProjectDetailsResult action" where
  "determine env w =
     (let p = path_resolve env (rootDirectory env) (PROJECT_FILE env)
      in await (io (ReadJsonFile p) (readJsonFile w p))
           (\<lambda>outcome.
              let es = (case outcome of
                          Inl e \<Rightarrow> [ProjectDetailsError ''Could not read project file.''
                                      ERR_INVALID_PROJECT_FILE (Some e)]
                        | Inr v \<Rightarrow> []);
                  c = (case outcome of Inl e \<Rightarrow> None | Inr v \<Rightarrow> Some v)
              in if is_truthy c \<and> isProjectConfig (the c) then
                   await (determineSingleApp env w (the c))
                     (\<lambda>r. resolve_with
                        \<lparr>context' = context' r, config = config r, name = name r,
                         type = type r, errors = errors r, configPath = p\<rparr>)
                 else if is_truthy c \<and> isMultiProjectConfig (the c) then
                   await (determineMultiApp env w (the c))
                     (\<lambda>r. resolve_with
                        \<lparr>context' = context' r, config = config r, name = name r,
                         type = type r, errors = errors r, configPath = p\<rparr>)
                 else
                   resolve_with
                     \<lparr>context' = Unknown, config = c, name = None, type = None, errors = es,
                      configPath = p\<rparr>))"

text \<open>
  A \<^verbatim>\<open>ProjectDetails\<close> instance: what the constructor stores, and the field
  \<^verbatim>\<open>_result\<close>, which the constructor leaves \<^verbatim>\<open>undefined\<close>.
\<close>

record ProjectDetails =
  deps :: env
  stored_result :: "ProjectDetailsResult option"

definition new_ProjectDetails :: "env \<Rightarrow> ProjectDetails" where
  "new_ProjectDetails env = \<lparr>deps = env, stored_result = None\<rparr>"

text \<open>
  \<^verbatim>\<open>result()\<close>, called when no other call of it is pending: what the call does, and the
  instance after it.
\<close>

definition result :: "world \<Rightarrow> ProjectDetails \<Rightarrow> ProjectDetailsResult action \<times> ProjectDetails" where
  "result w this =
     (case stored_result this of
        None \<Rightarrow>
          (case determine (deps this) w of
             (t, Inl e) \<Rightarrow> ((t, Inl e), this)
           | (t, Inr r) \<Rightarrow> ((t, Inr r), this\<lparr>stored_result := Some r\<rparr>))
      | Some r \<Rightarrow> (resolve_with r, this))"

section \<open>Project: runners\<close>

text \<open>
  The variants implement \<^verbatim>\<open>requireBuildRunner\<close>, \<^verbatim>\<open>requireServeRunner\<close> and
  \<^verbatim>\<open>requireGenerateRunner\<close>; the base class knows only that each resolves with a runner
  or rejects. A project is modelled by what the three do.
\<close>

record ('b, 's, 'g) Project =
  requireBuildRunner :: "'b action"
  requireServeRunner :: "'s action"
  requireGenerateRunner :: "'g action"

text \<open>\<^verbatim>\<open>e instanceof RunnerNotFoundException\<close>.\<close>

fun instanceof_RunnerNotFoundException :: "exn \<Rightarrow> bool" where
  "instanceof_RunnerNotFoundException (RunnerNotFoundException m) = True"
| "instanceof_RunnerNotFoundException e = False"

text \<open>
  \<^verbatim>\<open>try { return await m; } catch (e) { if (!(e instanceof RunnerNotFoundException)) throw e; }\<close>
\<close>

definition try_require :: "'a action \<Rightarrow> 'a option action" where
  "try_require m =
     (case m of
        (t, Inr r) \<Rightarrow> (t, Inr (Some r))
      | (t, Inl e) \<Rightarrow>
          if \<not> instanceof_RunnerNotFoundException e then (t, Inl e) else (t, Inr None))"

definition getBuildRunner :: "('b, 's, 'g) Project \<Rightarrow> 'b option action" where
  "getBuildRunner this = try_require (requireBuildRunner this)"

definition getServeRunner :: "('b, 's, 'g) Project \<Rightarrow> 's option action" where
  "getServeRunner this = try_require (requireServeRunner this)"

definition getGenerateRunner :: "('b, 's, 'g) Project \<Rightarrow> 'g option action" where
  "getGenerateRunner this = try_require (requireGenerateRunner this)"

section \<open>ProjectConfig\<close>

text \<open>
  Modelled from the spec: \<^verbatim>\<open>BaseConfig\<close> of \<^verbatim>\<open>@ionic/cli-framework\<close>, which is not
  among the sources. The state is the configuration object the instance is scoped to
  (the top level of the file, or \<^verbatim>\<open>projects.<name>\<close>), as the list of its properties;
  \<^verbatim>\<open>set\<close> writes one property and \<^verbatim>\<open>unset\<close> removes one.
\<close>

definition config_set :: "string \<Rightarrow> jsval \<Rightarrow> (string \<times> jsval) list \<Rightarrow> (string \<times> jsval) list" where
  "config_set k v c = AList.update k v c"

definition config_unset :: "string \<Rightarrow> (string \<times> jsval) list \<Rightarrow> (string \<times> jsval) list" where
  "config_unset k c = AList.delete k c"

text \<open>
  The constructor of \<^verbatim>\<open>ProjectConfig\<close>: the configuration after the load, from the one
  before it.
\<close>

definition ProjectConfig :: "(string \<times> jsval) list \<Rightarrow> (string \<times> jsval) list" where
  "ProjectConfig c =
     (case map_of c ''app_id'' of
        Some (JStr app_id) \<Rightarrow>
          config_unset ''app_id''
            (if app_id \<noteq> [] then config_set ''pro_id'' (JStr app_id) c else c)
      | _ \<Rightarrow> c)"

section \<open>Notions used to state the properties\<close>


text \<open>
  A configured project matches the working directory when it is truthy, its
  \<^verbatim>\<open>root\<close> is a non-empty string, and \<^verbatim>\<open>execPath\<close> starts with the resolved root.
\<close>

definition root_matches :: "env \<Rightarrow> jsval \<Rightarrow> bool" where
  "root_matches env v =
     (truthy v \<and>
      (case own_property v ''root'' of
         Some (JStr root) \<Rightarrow>
           root \<noteq> [] \<and> startsWith (execPath env) (path_resolve env (rootDirectory env) root)
       | _ \<Rightarrow> False))"

text \<open>
  A configured project has a usable root when \<^verbatim>\<open>path.resolve\<close> accepts it: the project
  is falsy, or its \<^verbatim>\<open>root\<close> is absent, falsy or a string.
\<close>

definition root_usable :: "jsval \<Rightarrow> bool" where
  "root_usable v =
     (case own_property v ''root'' of
        None \<Rightarrow> True
      | Some (JStr root) \<Rightarrow> True
      | Some r \<Rightarrow> \<not> truthy v \<or> \<not> truthy r)"

section \<open>Example inputs\<close>

text \<open>
  A workspace \<^verbatim>\<open>/w\<close> with two projects, used to evaluate the definitions. The working
  directory is inside the second project; the markers of \<^verbatim>\<open>ionic-angular\<close> and
  \<^verbatim>\<open>ionic1\<close> are both present. \<open>example_resolve\<close> is \<^verbatim>\<open>path.resolve\<close> on a
  normalised absolute directory and a normalised path; \<open>example_number\<close> prints an
  integer in decimal digits, as \<^verbatim>\<open>String\<close> does for the safe integers. No example
  prints a number.
\<close>

definition example_number :: "int \<Rightarrow> string" where
  "example_number n =
     (if n < 0 then ''-'' @ string_of_nat (nat (- n)) else string_of_nat (nat n))"

definition example_resolve :: "string \<Rightarrow> string \<Rightarrow> string" where
  "example_resolve d p = (if startsWith p ''/'' then p else d @ ''/'' @ p)"

definition example_env :: env where
  "example_env =
     \<lparr>rootDirectory = ''/w'', args = None, execPath = ''/w/apps/two/src'',
      PROJECT_FILE = ''ionic.config.json'',
      PROJECT_TYPES = [''angular'', ''ionic-angular'', ''ionic1'', ''custom''],
      path_resolve = example_resolve, number_String = example_number\<rparr>"

definition example_multi :: jsval where
  "example_multi =
     JObj [(''projects'',
            JObj [(''one'', JObj [(''root'', JStr ''apps/one''), (''type'', JStr ''angular'')]),
                  (''two'', JObj [(''root'', JStr ''apps/two'')])]),
           (''defaultProject'', JStr ''one'')]"

definition example_world :: world where
  "example_world =
     \<lparr>readJsonFile = (\<lambda>p. if p = ''/w/ionic.config.json'' then Inr example_multi
                          else Inl (SystemError ''ENOENT'')),
      detected = (\<lambda>v. v = IonicAngularProject \<or> v = Ionic1Project)\<rparr>"

text \<open>
  A configuration whose projects all contain the working directory of the example
  workspace. Two of the names are array indices, declared after \<^verbatim>\<open>app\<close> and with the
  greater one first.
\<close>

definition example_indexed :: jsval where
  "example_indexed =
     JObj [(''projects'',
            JObj [(''app'', JObj [(''root'', JStr ''apps/two'')]),
                  (''10'', JObj [(''root'', JStr ''apps'')]),
                  (''9'', JObj [(''root'', JStr ''apps/two'')])])]"

text \<open>The same workspace with no marker present, and with another project file.\<close>

definition example_bare :: world where
  "example_bare = example_world\<lparr>detected := \<lambda>v. False\<rparr>"

definition example_rewritten :: world where
  "example_rewritten =
     example_world\<lparr>readJsonFile := \<lambda>p. Inr (JObj [(''name'', JStr ''other''),
                                                    (''type'', JStr ''custom'')])\<rparr>"

text \<open>A project whose three \<^verbatim>\<open>require\<close> methods end in the given ways.\<close>

definition example_project :: "string action \<Rightarrow> string action \<Rightarrow> string action \<Rightarrow> (string, string, string) Project" where
  "example_project b s g =
     \<lparr>requireBuildRunner = b, requireServeRunner = s, requireGenerateRunner = g\<rparr>"

section \<open>Basic facts about asynchronous functions\<close>

lemma await_Inr: "await (t, Inr x) f = (t @ fst (f x), snd (f x))"
  by (cases "f x") (simp add: await_def)

lemma await_Inl: "await (t, Inl e) f = (t, Inl e)"
  by (simp add: await_def)

lemmas action_simps = resolve_with_def reject_def io_def await_Inr await_Inl

lemma is_truthy_simps [simp]:
  "is_truthy None = False"
  "is_truthy (Some v) = truthy v"
  by (simp_all add: is_truthy_def)

lemmas example_simps =
  example_env_def example_world_def example_multi_def example_resolve_def
  example_bare_def example_rewritten_def

section \<open>Type resolution\<close>






















section \<open>Name resolution\<close>

lemma path_match_hit:
  "root_matches env v \<Longrightarrow> path_match env ((k, v) # rest) = resolve_with (Some (JStr k))"
  by (auto simp add: root_matches_def split: option.splits jsval.splits)

lemma path_match_skip:
  "\<not> root_matches env v \<Longrightarrow> root_usable v \<Longrightarrow>
     path_match env ((k, v) # rest) = path_match env rest"
  by (auto simp add: root_matches_def root_usable_def Let_def split: option.splits jsval.splits)

lemma path_match_first:
  "\<forall>e\<in>set xs. \<not> root_matches env (snd e) \<and> root_usable (snd e) \<Longrightarrow> root_matches env v \<Longrightarrow>
     path_match env (xs @ (k, v) # ys) = resolve_with (Some (JStr k))"
proof (induction xs)
  case Nil
  then show ?case by (simp add: path_match_hit del: path_match.simps)
next
  case (Cons e xs)
  obtain k' v' where e: "e = (k', v')" by (cases e)
  with Cons.prems have "\<not> root_matches env v'" "root_usable v'" by simp_all
  then have "path_match env ((e # xs) @ (k, v) # ys) = path_match env (xs @ (k, v) # ys)"
    using e by (simp add: path_match_skip del: path_match.simps)
  with Cons show ?case by simp
qed

lemma path_match_none:
  "\<forall>e\<in>set es. \<not> root_matches env (snd e) \<and> root_usable (snd e) \<Longrightarrow>
     path_match env es = resolve_with None"
proof (induction es)
  case Nil
  then show ?case by simp
next
  case (Cons e es)
  obtain k v where e: "e = (k, v)" by (cases e)
  with Cons.prems have "\<not> root_matches env v" "root_usable v" by simp_all
  then have "path_match env (e # es) = path_match env es"
    using e by (simp add: path_match_skip del: path_match.simps)
  with Cons show ?case by simp
qed

lemma lodash_entries_declaration_order:
  assumes "\<forall>e\<in>set ps. \<not> is_array_index (fst e)"
  shows "lodash_entries ps = ps"
proof -
  from assms have "filter (\<lambda>kv. is_array_index (fst kv)) ps = []"
    by (simp add: filter_empty_conv)
  moreover from assms have "filter (\<lambda>kv. \<not> is_array_index (fst kv)) ps = ps"
    by (simp add: filter_id_conv)
  ultimately show ?thesis by (simp add: lodash_entries_def)
qed

lemmas entries_simps =
  lodash_entries_def is_array_index_def nat_of_digits_def digit_value_def string_of_nat.simps

lemma example_entries:
  "lodash_entries (projects example_multi) =
     [(''one'', JObj [(''root'', JStr ''apps/one''), (''type'', JStr ''angular'')]),
      (''two'', JObj [(''root'', JStr ''apps/two'')])]"
  by (simp add: example_multi_def projects_def entries_simps)

lemma lodash_entries_index_part:
  "filter (\<lambda>e. is_array_index (fst e)) (lodash_entries ps) =
     sort_key (\<lambda>e. nat_of_digits (fst e)) (filter (\<lambda>e. is_array_index (fst e)) ps)"
  by (simp add: lodash_entries_def filter_sort)

lemma lodash_entries_order:
  "lodash_entries ps =
     filter (\<lambda>e. is_array_index (fst e)) (lodash_entries ps) @
     filter (\<lambda>e. \<not> is_array_index (fst e)) ps"
  by (simp add: lodash_entries_index_part) (simp add: lodash_entries_def)

lemma lodash_entries_ascending:
  "sorted (map (\<lambda>e. nat_of_digits (fst e)) (filter (\<lambda>e. is_array_index (fst e)) (lodash_entries ps)))"
  by (simp add: lodash_entries_index_part)

lemma lodash_entries_mset: "mset (lodash_entries ps) = mset ps"
  by (simp add: lodash_entries_def)

lemma example_indexed_entries:
  "lodash_entries (projects example_indexed) =
     [(''9'', JObj [(''root'', JStr ''apps/two'')]),
      (''10'', JObj [(''root'', JStr ''apps'')]),
      (''app'', JObj [(''root'', JStr ''apps/two'')])]"
  by (simp add: example_indexed_def projects_def entries_simps)


text \<open>
  C9, as the code has it. The path-containment step visits the configured projects in
  the order in which the runtime enumerates the \<^verbatim>\<open>projects\<close> mapping, and selects the
  name of the first project whose resolved root the working directory starts with; it
  selects nothing when no project matches. The enumeration holds the same projects as
  the mapping: first those whose names are array indices, in ascending order of the
  index, then all the others in declaration order; so it is the declaration order when
  no project name is an array index. A project whose \<^verbatim>\<open>root\<close> is truthy but not a
  string makes \<^verbatim>\<open>path.resolve\<close> throw, so the projects visited are required to have
  usable roots.
\<close>

theorem path_match_selects_first:
  "(\<forall>xs k v ys.
       lodash_entries (projects c) = xs @ (k, v) # ys \<and>
       (\<forall>e\<in>set xs. \<not> root_matches env (snd e) \<and> root_usable (snd e)) \<and>
       root_matches env v \<longrightarrow>
       getNameFromPathMatch env c = resolve_with (Some (JStr k))) \<and>
   ((\<forall>e\<in>set (lodash_entries (projects c)). \<not> root_matches env (snd e) \<and> root_usable (snd e)) \<longrightarrow>
       getNameFromPathMatch env c = resolve_with None) \<and>
   mset (lodash_entries (projects c)) = mset (projects c) \<and>
   lodash_entries (projects c) =
     filter (\<lambda>e. is_array_index (fst e)) (lodash_entries (projects c)) @
     filter (\<lambda>e. \<not> is_array_index (fst e)) (projects c) \<and>
   sorted (map (\<lambda>e. nat_of_digits (fst e))
             (filter (\<lambda>e. is_array_index (fst e)) (lodash_entries (projects c)))) \<and>
   ((\<forall>e\<in>set (projects c). \<not> is_array_index (fst e)) \<longrightarrow>
       lodash_entries (projects c) = projects c)"
proof (intro conjI)
  show "\<forall>xs k v ys.
       lodash_entries (projects c) = xs @ (k, v) # ys \<and>
       (\<forall>e\<in>set xs. \<not> root_matches env (snd e) \<and> root_usable (snd e)) \<and>
       root_matches env v \<longrightarrow>
       getNameFromPathMatch env c = resolve_with (Some (JStr k))"
    by (simp add: getNameFromPathMatch_def path_match_first)
next
  show "(\<forall>e\<in>set (lodash_entries (projects c)). \<not> root_matches env (snd e) \<and> root_usable (snd e)) \<longrightarrow>
       getNameFromPathMatch env c = resolve_with None"
    by (simp add: getNameFromPathMatch_def path_match_none)
next
  show "mset (lodash_entries (projects c)) = mset (projects c)"
    by (rule lodash_entries_mset)
next
  show "lodash_entries (projects c) =
     filter (\<lambda>e. is_array_index (fst e)) (lodash_entries (projects c)) @
     filter (\<lambda>e. \<not> is_array_index (fst e)) (projects c)"
    by (rule lodash_entries_order)
next
  show "sorted (map (\<lambda>e. nat_of_digits (fst e))
             (filter (\<lambda>e. is_array_index (fst e)) (lodash_entries (projects c))))"
    by (rule lodash_entries_ascending)
next
  show "(\<forall>e\<in>set (projects c). \<not> is_array_index (fst e)) \<longrightarrow>
       lodash_entries (projects c) = projects c"
    by (simp add: lodash_entries_declaration_order)
qed

text \<open>
  The theorem at the example workspace. With the names \<^verbatim>\<open>one\<close> and \<^verbatim>\<open>two\<close> the
  projects are visited as declared: from inside the second project the step selects
  \<^verbatim>\<open>two\<close>, and from outside the workspace it selects nothing. With the names
  \<^verbatim>\<open>app\<close>, \<^verbatim>\<open>10\<close> and \<^verbatim>\<open>9\<close>, declared in this order and all matching, the
  project \<^verbatim>\<open>9\<close> is visited first and is the one selected.
\<close>

theorem path_match_selects_first_witness:
  "lodash_entries (projects example_multi) = projects example_multi \<and>
   getNameFromPathMatch example_env example_multi = resolve_with (Some (JStr ''two'')) \<and>
   getNameFromPathMatch (example_env\<lparr>execPath := ''/elsewhere''\<rparr>) example_multi =
     resolve_with None \<and>
   getNameFromPathMatch example_env example_indexed = resolve_with (Some (JStr ''9''))"
proof (intro conjI)
  show "lodash_entries (projects example_multi) = projects example_multi"
    using path_match_selects_first [of example_multi example_env]
    by (simp add: example_multi_def projects_def entries_simps)
next
  show "getNameFromPathMatch example_env example_multi = resolve_with (Some (JStr ''two''))"
    using path_match_selects_first [of example_multi example_env,
        THEN conjunct1, rule_format,
        of "[(''one'', JObj [(''root'', JStr ''apps/one''), (''type'', JStr ''angular'')])]"
           "''two''" "JObj [(''root'', JStr ''apps/two'')]" "[]"]
    by (simp add: example_entries root_matches_def root_usable_def example_env_def
          example_resolve_def)
next
  show "getNameFromPathMatch (example_env\<lparr>execPath := ''/elsewhere''\<rparr>) example_multi =
          resolve_with None"
    using path_match_selects_first [of example_multi "example_env\<lparr>execPath := ''/elsewhere''\<rparr>",
        THEN conjunct2, THEN conjunct1]
    by (simp add: example_entries root_matches_def root_usable_def example_env_def
          example_resolve_def)
next
  show "getNameFromPathMatch example_env example_indexed = resolve_with (Some (JStr ''9''))"
    using path_match_selects_first [of example_indexed example_env,
        THEN conjunct1, rule_format,
        of "[]" "''9''" "JObj [(''root'', JStr ''apps/two'')]"
           "[(''10'', JObj [(''root'', JStr ''apps'')]),
             (''app'', JObj [(''root'', JStr ''apps/two'')])]"]
    by (simp add: example_indexed_entries root_matches_def example_env_def
          example_resolve_def)
qed

text \<open>
  Against C9 as the spec states it: \<^verbatim>\<open>app\<close> is declared first and matches, but the
  project that is selected is \<^verbatim>\<open>9\<close>, which is declared last: as an array index it
  is visited before \<^verbatim>\<open>app\<close>, and as the smaller index before \<^verbatim>\<open>10\<close>, which
  matches too and is declared before it.
\<close>

theorem path_match_declaration_order_counterexample:
  "projects example_indexed =
     [(''app'', JObj [(''root'', JStr ''apps/two'')]),
      (''10'', JObj [(''root'', JStr ''apps'')]),
      (''9'', JObj [(''root'', JStr ''apps/two'')])] \<and>
   root_matches example_env (JObj [(''root'', JStr ''apps/two'')]) \<and>
   root_matches example_env (JObj [(''root'', JStr ''apps'')]) \<and>
   getNameFromPathMatch example_env example_indexed = resolve_with (Some (JStr ''9''))"
  by (simp add: example_indexed_def projects_def root_matches_def getNameFromPathMatch_def
        entries_simps example_env_def example_resolve_def)





lemma example_path_match:
  "getNameFromPathMatch example_env example_multi = resolve_with (Some (JStr ''two''))"
  by (simp add: getNameFromPathMatch_def example_entries example_env_def example_resolve_def)





text \<open>
  What the code does for C4. When all three sources yield nothing, the result has no
  name and its only error is \<^verbatim>\<open>ERR_MULTI_MISSING_NAME\<close>.
\<close>

lemma determineMultiApp_missing_name:
  assumes "getNameFromArgs env = resolve_with None"
    and "getNameFromPathMatch env c = resolve_with None"
    and "getNameFromDefaultProject c = resolve_with None"
  shows "determineMultiApp env w c =
           ([], Inr \<lparr>context' = MultiApp, config = Some c, name = None, type = None,
                     errors = [ProjectDetailsError ''Could not determine project name.''
                                 ERR_MULTI_MISSING_NAME None]\<rparr>)"
  using assms by (simp add: determineMultiApp_def action_simps)

text \<open>
  When a name is resolved and \<^verbatim>\<open>config.projects[name]\<close> is \<^verbatim>\<open>undefined\<close>, the
  result has no type and its only error is \<^verbatim>\<open>ERR_MULTI_MISSING_CONFIG\<close>; type
  resolution is not run. A name that is not a key of the mapping reads as
  \<^verbatim>\<open>undefined\<close> unless \<^verbatim>\<open>Object.prototype\<close> has a property of that name.
\<close>

lemma determineMultiApp_missing_config:
  assumes "resolveValue [\<lambda>_. getNameFromArgs env, \<lambda>_. getNameFromPathMatch env c,
             \<lambda>_. getNameFromDefaultProject c] = (t0, Inr (Some n))"
    and "truthy n"
    and "get_property (projects c) (js_String (number_String env) n) = None"
  shows "determineMultiApp env w c =
           (t0, Inr \<lparr>context' = MultiApp, config = Some c, name = Some n, type = None,
                     errors = [ProjectDetailsError ''Could not find project in config.''
                                 ERR_MULTI_MISSING_CONFIG None]\<rparr>)"
  using assms by (simp add: determineMultiApp_def action_simps)

lemma get_property_absent:
  "map_of ps k = None \<Longrightarrow> map_of object_prototype k = None \<Longrightarrow> get_property ps k = None"
  by (simp add: get_property_def)

text \<open>
  C4 at \<^verbatim>\<open>--project=constructor\<close> in the example workspace, which has no project of
  that name: \<^verbatim>\<open>config.projects['constructor']\<close> is the function that every object
  inherits, so the name counts as configured, type resolution runs on that function,
  and the result has a type and no error.
\<close>

theorem inherited_project_name:
  "map_of (projects example_multi) ''constructor'' = None \<and>
   determineMultiApp (example_env\<lparr>args := Some [(''project'', JStr ''constructor'')]\<rparr>)
     example_world example_multi =
     ([Detected AngularProject, Detected IonicAngularProject],
      Inr \<lparr>context' = MultiApp, config = Some example_multi,
           name = Some (JStr ''constructor''), type = Some (JStr ''ionic-angular''),
           errors = []\<rparr>)"
  by (simp add: determineMultiApp_def getNameFromArgs_def Let_def action_simps)
     (simp add: example_simps projects_def get_property_def object_prototype_def
        determineSingleApp_def getTypeFromConfig_def Let_def getTypeFromDetection_def
        createProjectFromType_def array_includes_def action_simps)

section \<open>The whole resolution\<close>

text \<open>
  C5. When reading the project file fails (the file is absent, unreadable or not JSON),
  \<^verbatim>\<open>determine\<close> resolves with context \<^verbatim>\<open>unknown\<close>, no configuration, no name, no
  type, and exactly one error, \<^verbatim>\<open>ERR_INVALID_PROJECT_FILE\<close>, which holds the failure.
  The failed read is all it did: no marker is probed, and the result is the same
  whatever the arguments, the working directory and the markers are.
\<close>

theorem determine_read_failure:
  assumes "readJsonFile w (path_resolve env (rootDirectory env) (PROJECT_FILE env)) = Inl e"
  shows "determine env w =
           ([ReadJsonFile (path_resolve env (rootDirectory env) (PROJECT_FILE env))],
            Inr \<lparr>context' = Unknown, config = None, name = None, type = None,
                 errors = [ProjectDetailsError ''Could not read project file.''
                             ERR_INVALID_PROJECT_FILE (Some e)],
                 configPath = path_resolve env (rootDirectory env) (PROJECT_FILE env)\<rparr>)"
  using assms by (simp add: determine_def Let_def action_simps)

text \<open>The theorem at a directory that has no project file.\<close>

theorem determine_read_failure_witness:
  "readJsonFile example_world ''/nowhere/ionic.config.json'' = Inl (SystemError ''ENOENT'') \<and>
   determine (example_env\<lparr>rootDirectory := ''/nowhere''\<rparr>) example_world =
     ([ReadJsonFile ''/nowhere/ionic.config.json''],
      Inr \<lparr>context' = Unknown, config = None, name = None, type = None,
           errors = [ProjectDetailsError ''Could not read project file.''
                       ERR_INVALID_PROJECT_FILE (Some (SystemError ''ENOENT''))],
           configPath = ''/nowhere/ionic.config.json''\<rparr>)"
  using determine_read_failure [of example_world "example_env\<lparr>rootDirectory := ''/nowhere''\<rparr>"
      "SystemError ''ENOENT''"]
  by (simp add: example_simps)

text \<open>
  C10. When the project file is read and parsed but the value has neither the
  single-app nor the multi-app shape, \<^verbatim>\<open>determine\<close> resolves with context
  \<^verbatim>\<open>unknown\<close>, the parsed value as the configuration, no name, no type and no error
  at all; it probes no marker.
\<close>

theorem determine_unknown_shape:
  assumes "readJsonFile w (path_resolve env (rootDirectory env) (PROJECT_FILE env)) = Inr c"
    and "\<not> isProjectConfig c" and "\<not> isMultiProjectConfig c"
  shows "determine env w =
           ([ReadJsonFile (path_resolve env (rootDirectory env) (PROJECT_FILE env))],
            Inr \<lparr>context' = Unknown, config = Some c, name = None, type = None,
                 errors = [],
                 configPath = path_resolve env (rootDirectory env) (PROJECT_FILE env)\<rparr>)"
  using assms by (simp add: determine_def Let_def action_simps)

text \<open>The theorem at a project file that holds a JSON array.\<close>

theorem determine_unknown_shape_witness:
  "\<not> isProjectConfig (JArr [JStr ''app'']) \<and> \<not> isMultiProjectConfig (JArr [JStr ''app'']) \<and>
   determine example_env (example_world\<lparr>readJsonFile := \<lambda>p. Inr (JArr [JStr ''app''])\<rparr>) =
     ([ReadJsonFile ''/w/ionic.config.json''],
      Inr \<lparr>context' = Unknown, config = Some (JArr [JStr ''app'']), name = None, type = None,
           errors = [], configPath = ''/w/ionic.config.json''\<rparr>)"
  using determine_unknown_shape [of "example_world\<lparr>readJsonFile := \<lambda>p. Inr (JArr [JStr ''app''])\<rparr>"
      example_env "JArr [JStr ''app'']"]
  by (simp add: isProjectConfig_def isMultiProjectConfig_def example_simps)

lemma example_determine:
  "determine example_env example_world =
     ([ReadJsonFile ''/w/ionic.config.json'', Detected AngularProject,
       Detected IonicAngularProject],
      Inr \<lparr>context' = MultiApp, config = Some example_multi, name = Some (JStr ''two''),
           type = Some (JStr ''ionic-angular''), errors = [],
           configPath = ''/w/ionic.config.json''\<rparr>)"
proof -
  have read: "readJsonFile example_world ''/w/ionic.config.json'' = Inr example_multi"
    and path: "path_resolve example_env (rootDirectory example_env) (PROJECT_FILE example_env) =
          ''/w/ionic.config.json''"
    by (simp_all add: example_simps)
  have shape: "\<not> isProjectConfig example_multi" "isMultiProjectConfig example_multi"
    by (simp_all add: isProjectConfig_def isMultiProjectConfig_def example_multi_def)
  have multi: "determineMultiApp example_env example_world example_multi =
     ([Detected AngularProject, Detected IonicAngularProject],
      Inr \<lparr>context' = MultiApp, config = Some example_multi, name = Some (JStr ''two''),
           type = Some (JStr ''ionic-angular''), errors = []\<rparr>)"
    by (simp add: determineMultiApp_def getNameFromArgs_def Let_def example_path_match action_simps)
       (simp add: example_simps projects_def get_property_def determineSingleApp_def
          getTypeFromConfig_def getTypeFromDetection_def createProjectFromType_def
          array_includes_def action_simps)
  have truthy: "truthy example_multi"
    by (simp add: example_multi_def)
  show ?thesis
    by (simp add: determine_def Let_def read path shape multi truthy action_simps)
qed

section \<open>Memoization\<close>

text \<open>
  C6. Once a call of \<^verbatim>\<open>result()\<close> has resolved with a result, the instance holds it,
  and a later call on that instance resolves with the same result and reads nothing from
  the file system, whatever the file system holds by then; the later call leaves the
  instance as it is, so this holds for every call after the first. Calls are taken one
  after the other.
\<close>

theorem result_memoized:
  assumes "result w1 this = ((t, Inr r), this')"
  shows "result w2 this' = (([], Inr r), this') \<and> stored_result this' = Some r"
  using assms
  by (auto simp add: result_def resolve_with_def split: option.splits prod.splits sum.splits)

text \<open>
  The theorem at a new instance in the example workspace: the first call reads the
  project file and probes two markers; the second call, made after the project file was
  replaced by that of a single app, reads nothing and resolves with the first result.
\<close>

theorem result_memoized_witness:
  "result example_world (new_ProjectDetails example_env) =
     (determine example_env example_world,
      \<lparr>deps = example_env,
       stored_result =
         Some \<lparr>context' = MultiApp, config = Some example_multi, name = Some (JStr ''two''),
               type = Some (JStr ''ionic-angular''), errors = [],
               configPath = ''/w/ionic.config.json''\<rparr>\<rparr>) \<and>
   result example_rewritten
     \<lparr>deps = example_env,
      stored_result =
        Some \<lparr>context' = MultiApp, config = Some example_multi, name = Some (JStr ''two''),
              type = Some (JStr ''ionic-angular''), errors = [],
              configPath = ''/w/ionic.config.json''\<rparr>\<rparr> =
     (([], Inr \<lparr>context' = MultiApp, config = Some example_multi, name = Some (JStr ''two''),
                type = Some (JStr ''ionic-angular''), errors = [],
                configPath = ''/w/ionic.config.json''\<rparr>),
      \<lparr>deps = example_env,
       stored_result =
         Some \<lparr>context' = MultiApp, config = Some example_multi, name = Some (JStr ''two''),
               type = Some (JStr ''ionic-angular''), errors = [],
               configPath = ''/w/ionic.config.json''\<rparr>\<rparr>)"
proof -
  have first: "result example_world (new_ProjectDetails example_env) =
     (([ReadJsonFile ''/w/ionic.config.json'', Detected AngularProject,
        Detected IonicAngularProject],
       Inr \<lparr>context' = MultiApp, config = Some example_multi, name = Some (JStr ''two''),
            type = Some (JStr ''ionic-angular''), errors = [],
            configPath = ''/w/ionic.config.json''\<rparr>),
      \<lparr>deps = example_env,
       stored_result =
         Some \<lparr>context' = MultiApp, config = Some example_multi, name = Some (JStr ''two''),
               type = Some (JStr ''ionic-angular''), errors = [],
               configPath = ''/w/ionic.config.json''\<rparr>\<rparr>)"
    by (simp add: result_def new_ProjectDetails_def example_determine)
  from result_memoized [OF first, of example_rewritten] first
  show ?thesis
    by (simp add: example_determine)
qed

section \<open>Runners\<close>

lemma try_require_cases:
  "(\<forall>t r. m = (t, Inr r) \<longrightarrow> try_require m = (t, Inr (Some r))) \<and>
   (\<forall>t x. m = (t, Inl (RunnerNotFoundException x)) \<longrightarrow> try_require m = (t, Inr None)) \<and>
   (\<forall>t e. m = (t, Inl e) \<and> \<not> instanceof_RunnerNotFoundException e \<longrightarrow>
      try_require m = (t, Inl e)) \<and>
   (snd (try_require m) = Inr None \<longleftrightarrow> (\<exists>x. snd m = Inl (RunnerNotFoundException x)))"
proof -
  obtain t out where m: "m = (t, out)" by (cases m)
  show ?thesis
  proof (cases out)
    case (Inl e)
    then show ?thesis using m by (cases e) (simp_all add: try_require_def)
  next
    case (Inr r)
    then show ?thesis using m by (simp add: try_require_def)
  qed
qed

text \<open>
  C7. For each of the three capabilities, whatever the variant's \<^verbatim>\<open>requireXRunner\<close>
  does: when it resolves with a runner, \<^verbatim>\<open>getXRunner\<close> resolves with that runner; when
  it rejects with a \<^verbatim>\<open>RunnerNotFoundException\<close>, \<^verbatim>\<open>getXRunner\<close> resolves with
  \<^verbatim>\<open>undefined\<close>; when it rejects with anything else, \<^verbatim>\<open>getXRunner\<close> rejects with
  the same exception; and \<^verbatim>\<open>getXRunner\<close> resolves with \<^verbatim>\<open>undefined\<close> in no other
  case than the second.
\<close>

theorem getRunner_catches_RunnerNotFoundException_only:
  fixes this :: "('b, 's, 'g) Project"
  shows
  "((\<forall>t r. requireBuildRunner this = (t, Inr r) \<longrightarrow> getBuildRunner this = (t, Inr (Some r))) \<and>
    (\<forall>t x. requireBuildRunner this = (t, Inl (RunnerNotFoundException x)) \<longrightarrow>
        getBuildRunner this = (t, Inr None)) \<and>
    (\<forall>t e. requireBuildRunner this = (t, Inl e) \<and> \<not> instanceof_RunnerNotFoundException e \<longrightarrow>
        getBuildRunner this = (t, Inl e)) \<and>
    (snd (getBuildRunner this) = Inr None \<longleftrightarrow>
        (\<exists>x. snd (requireBuildRunner this) = Inl (RunnerNotFoundException x)))) \<and>
   ((\<forall>t r. requireServeRunner this = (t, Inr r) \<longrightarrow> getServeRunner this = (t, Inr (Some r))) \<and>
    (\<forall>t x. requireServeRunner this = (t, Inl (RunnerNotFoundException x)) \<longrightarrow>
        getServeRunner this = (t, Inr None)) \<and>
    (\<forall>t e. requireServeRunner this = (t, Inl e) \<and> \<not> instanceof_RunnerNotFoundException e \<longrightarrow>
        getServeRunner this = (t, Inl e)) \<and>
    (snd (getServeRunner this) = Inr None \<longleftrightarrow>
        (\<exists>x. snd (requireServeRunner this) = Inl (RunnerNotFoundException x)))) \<and>
   ((\<forall>t r. requireGenerateRunner this = (t, Inr r) \<longrightarrow>
        getGenerateRunner this = (t, Inr (Some r))) \<and>
    (\<forall>t x. requireGenerateRunner this = (t, Inl (RunnerNotFoundException x)) \<longrightarrow>
        getGenerateRunner this = (t, Inr None)) \<and>
    (\<forall>t e. requireGenerateRunner this = (t, Inl e) \<and> \<not> instanceof_RunnerNotFoundException e \<longrightarrow>
        getGenerateRunner this = (t, Inl e)) \<and>
    (snd (getGenerateRunner this) = Inr None \<longleftrightarrow>
        (\<exists>x. snd (requireGenerateRunner this) = Inl (RunnerNotFoundException x))))"
  unfolding getBuildRunner_def getServeRunner_def getGenerateRunner_def
  using try_require_cases [of "requireBuildRunner this"]
        try_require_cases [of "requireServeRunner this"]
        try_require_cases [of "requireGenerateRunner this"]
  by simp

text \<open>
  The theorem at three projects, so that each capability meets each of the three cases: a
  runner, a missing runner, and a fatal failure.
\<close>

theorem getRunner_catches_RunnerNotFoundException_only_witness:
  "getBuildRunner (example_project ([], Inr ''runner'')
       ([], Inl (RunnerNotFoundException ''none'')) ([], Inl (FatalException ''fatal''))) =
     ([], Inr (Some ''runner'')) \<and>
   getServeRunner (example_project ([], Inr ''runner'')
       ([], Inl (RunnerNotFoundException ''none'')) ([], Inl (FatalException ''fatal''))) =
     ([], Inr None) \<and>
   getGenerateRunner (example_project ([], Inr ''runner'')
       ([], Inl (RunnerNotFoundException ''none'')) ([], Inl (FatalException ''fatal''))) =
     ([], Inl (FatalException ''fatal'')) \<and>
   getBuildRunner (example_project ([], Inl (RunnerNotFoundException ''none''))
       ([], Inl (FatalException ''fatal'')) ([], Inr ''runner'')) =
     ([], Inr None) \<and>
   getServeRunner (example_project ([], Inl (RunnerNotFoundException ''none''))
       ([], Inl (FatalException ''fatal'')) ([], Inr ''runner'')) =
     ([], Inl (FatalException ''fatal'')) \<and>
   getGenerateRunner (example_project ([], Inl (RunnerNotFoundException ''none''))
       ([], Inl (FatalException ''fatal'')) ([], Inr ''runner'')) =
     ([], Inr (Some ''runner'')) \<and>
   getBuildRunner (example_project ([], Inl (FatalException ''fatal''))
       ([], Inr ''runner'') ([], Inl (RunnerNotFoundException ''none''))) =
     ([], Inl (FatalException ''fatal'')) \<and>
   getServeRunner (example_project ([], Inl (FatalException ''fatal''))
       ([], Inr ''runner'') ([], Inl (RunnerNotFoundException ''none''))) =
     ([], Inr (Some ''runner'')) \<and>
   getGenerateRunner (example_project ([], Inl (FatalException ''fatal''))
       ([], Inr ''runner'') ([], Inl (RunnerNotFoundException ''none''))) =
     ([], Inr None)"
  using
    getRunner_catches_RunnerNotFoundException_only [of "example_project ([], Inr ''runner'')
       ([], Inl (RunnerNotFoundException ''none'')) ([], Inl (FatalException ''fatal''))"]
    getRunner_catches_RunnerNotFoundException_only [of
       "example_project ([], Inl (RunnerNotFoundException ''none''))
       ([], Inl (FatalException ''fatal'')) ([], Inr ''runner'')"]
    getRunner_catches_RunnerNotFoundException_only [of
       "example_project ([], Inl (FatalException ''fatal''))
       ([], Inr ''runner'') ([], Inl (RunnerNotFoundException ''none''))"]
  by (simp add: example_project_def)

section \<open>Migration of the legacy application id\<close>

lemma map_of_ProjectConfig_app_id:
  "map_of c ''app_id'' = Some (JStr x) \<Longrightarrow> map_of (ProjectConfig c) ''app_id'' = None"
  by (simp add: ProjectConfig_def config_unset_def config_set_def delete_conv')

text \<open>
  C8. Loading a configuration whose \<^verbatim>\<open>app_id\<close> is a non-empty string gives a
  configuration whose \<^verbatim>\<open>pro_id\<close> is that string and which has no \<^verbatim>\<open>app_id\<close>; every
  other property is as it was. Loading is idempotent: loading the loaded configuration
  again changes nothing, whatever the configuration was.
\<close>

theorem ProjectConfig_migration:
  "(\<forall>x. map_of c ''app_id'' = Some (JStr x) \<and> x \<noteq> [] \<longrightarrow>
       map_of (ProjectConfig c) ''pro_id'' = Some (JStr x) \<and>
       map_of (ProjectConfig c) ''app_id'' = None \<and>
       (\<forall>k. k \<noteq> ''pro_id'' \<and> k \<noteq> ''app_id'' \<longrightarrow> map_of (ProjectConfig c) k = map_of c k)) \<and>
   ProjectConfig (ProjectConfig c) = ProjectConfig c"
proof -
  have idem: "ProjectConfig (ProjectConfig c) = ProjectConfig c"
  proof (cases "\<exists>x. map_of c ''app_id'' = Some (JStr x)")
    case True
    then obtain x where "map_of c ''app_id'' = Some (JStr x)" ..
    then have "map_of (ProjectConfig c) ''app_id'' = None"
      by (rule map_of_ProjectConfig_app_id)
    then show ?thesis by (simp add: ProjectConfig_def [of "ProjectConfig c"])
  next
    case False
    then have "ProjectConfig c = c"
      by (auto simp add: ProjectConfig_def split: option.splits jsval.splits)
    then show ?thesis by simp
  qed
  have migrated:
    "\<forall>x. map_of c ''app_id'' = Some (JStr x) \<and> x \<noteq> [] \<longrightarrow>
       map_of (ProjectConfig c) ''pro_id'' = Some (JStr x) \<and>
       map_of (ProjectConfig c) ''app_id'' = None \<and>
       (\<forall>k. k \<noteq> ''pro_id'' \<and> k \<noteq> ''app_id'' \<longrightarrow> map_of (ProjectConfig c) k = map_of c k)"
    by (simp add: ProjectConfig_def config_unset_def config_set_def delete_conv' update_conv')
  from migrated idem show ?thesis by blast
qed

text \<open>The theorem at a configuration with the legacy id \<^verbatim>\<open>abc123\<close>.\<close>

theorem ProjectConfig_migration_witness:
  "map_of (ProjectConfig [(''name'', JStr ''app''), (''app_id'', JStr ''abc123''),
                          (''integrations'', JObj [])]) ''pro_id'' = Some (JStr ''abc123'') \<and>
   map_of (ProjectConfig [(''name'', JStr ''app''), (''app_id'', JStr ''abc123''),
                          (''integrations'', JObj [])]) ''app_id'' = None \<and>
   map_of (ProjectConfig [(''name'', JStr ''app''), (''app_id'', JStr ''abc123''),
                          (''integrations'', JObj [])]) ''name'' = Some (JStr ''app'') \<and>
   ProjectConfig (ProjectConfig [(''name'', JStr ''app''), (''app_id'', JStr ''abc123''),
                                 (''integrations'', JObj [])]) =
     ProjectConfig [(''name'', JStr ''app''), (''app_id'', JStr ''abc123''),
                    (''integrations'', JObj [])]"
  using ProjectConfig_migration [of "[(''name'', JStr ''app''), (''app_id'', JStr ''abc123''),
                                      (''integrations'', JObj [])]"]
  by simp

end
